theory Spec2Isabelle
  imports Complex_Main
begin

section \<open>The monitoring log as pandas loads it\<close>

text \<open>
  \<^verbatim>\<open>analyze_results\<close> of \<^verbatim>\<open>NMO.py\<close> works on the frame that
  \<^verbatim>\<open>pd.read_csv\<close> returns. A cell of the frame is kept as what pandas makes of
  it: a blank cell is NaN, a text either converts or does not.
\<close>

datatype timestamp_cell =
    Ts_nan            \<comment> \<open>blank cell: NaN, which \<^verbatim>\<open>pd.to_datetime\<close> turns into NaT\<close>
  | Ts_ok int         \<comment> \<open>text that \<^verbatim>\<open>pd.to_datetime\<close> parses, as an instant\<close>
  | Ts_bad            \<comment> \<open>text that \<^verbatim>\<open>pd.to_datetime\<close> cannot parse\<close>

text \<open>A float that is not NaN: \<^verbatim>\<open>read_csv\<close> reads \<^verbatim>\<open>inf\<close> and \<^verbatim>\<open>-inf\<close> as the infinities.\<close>

datatype number = Finite real | Pos_inf | Neg_inf

datatype number_cell =
    Num_nan           \<comment> \<open>blank cell\<close>
  | Num_ok number     \<comment> \<open>numeric text, as the number it denotes\<close>
  | Num_bad           \<comment> \<open>text that is no number\<close>

datatype success_cell =
    S_nan             \<comment> \<open>blank cell\<close>
  | S_bool bool       \<comment> \<open>one of True, TRUE, true, False, FALSE, false\<close>
  | S_num number      \<comment> \<open>a number\<close>
  | S_str string      \<comment> \<open>any other text\<close>

record csv_row =
  Timestamp :: timestamp_cell
  CheckType :: string
  CheckName :: string
  TargetHost :: string
  TargetPort :: number_cell
  Success :: success_cell
  Details :: string

text \<open>The same row once lines 119 to 129 have converted its three columns.\<close>

record row =
  timestamp :: "int option"      \<comment> \<open>\<open>None\<close> is NaT\<close>
  check_type :: string
  check_name :: string
  target_host :: string
  target_port :: "number option" \<comment> \<open>\<open>None\<close> is NaN\<close>
  success :: bool
  details :: string

datatype py_error =
    ValueError        \<comment> \<open>raised by \<^verbatim>\<open>pd.to_datetime\<close>, line 119\<close>
  | TypeError         \<comment> \<open>raised by \<^verbatim>\<open>astype('boolean')\<close>, line 129\<close>
  | OverflowError     \<comment> \<open>raised by \<^verbatim>\<open>int\<close> of an infinity, lines 178 and 194\<close>

section \<open>Column conversions, lines 117 to 129\<close>

text \<open>
  Line 119, \<^verbatim>\<open>pd.to_datetime(df['Timestamp'])\<close>, is called with the default
  \<^verbatim>\<open>errors='raise'\<close>: a text that does not parse raises, a blank cell becomes NaT.
\<close>

fun to_datetime :: "timestamp_cell \<Rightarrow> py_error + int option" where
  "to_datetime Ts_nan = Inr None"
| "to_datetime (Ts_ok t) = Inr (Some t)"
| "to_datetime Ts_bad = Inl ValueError"

text \<open>Line 121, \<^verbatim>\<open>pd.to_numeric(df['TargetPort'], errors='coerce')\<close>.\<close>

fun to_numeric :: "number_cell \<Rightarrow> number option" where
  "to_numeric Num_nan = None"
| "to_numeric (Num_ok x) = Some x"
| "to_numeric Num_bad = None"

text \<open>A conversion applied down a column stops at the first cell that raises.\<close>

fun map_raise :: "('a \<Rightarrow> py_error + 'b) \<Rightarrow> 'a list \<Rightarrow> py_error + 'b list" where
  "map_raise f [] = Inr []"
| "map_raise f (x # xs) =
     (case f x of
        Inl e \<Rightarrow> Inl e
      | Inr y \<Rightarrow> (case map_raise f xs of Inl e \<Rightarrow> Inl e | Inr ys \<Rightarrow> Inr (y # ys)))"

subsection \<open>The Success column\<close>

text \<open>
  \<^verbatim>\<open>read_csv\<close> gives a column one dtype: bool when every cell is a boolean word,
  a number dtype when every cell is a number or blank, object otherwise.
\<close>

datatype dtype = Dtype_bool | Dtype_number | Dtype_object

fun is_bool_cell :: "success_cell \<Rightarrow> bool" where
  "is_bool_cell (S_bool b) = True"
| "is_bool_cell c = False"

fun is_number_cell :: "success_cell \<Rightarrow> bool" where
  "is_number_cell (S_num x) = True"
| "is_number_cell S_nan = True"
| "is_number_cell c = False"

definition success_dtype :: "success_cell list \<Rightarrow> dtype" where
  "success_dtype col =
     (if list_all is_bool_cell col then Dtype_bool
      else if list_all is_number_cell col then Dtype_number
      else Dtype_object)"

definition upper_lower :: "(char \<times> char) list" where
  "upper_lower = zip ''ABCDEFGHIJKLMNOPQRSTUVWXYZ'' ''abcdefghijklmnopqrstuvwxyz''"

definition lower :: "string \<Rightarrow> string" where
  "lower s = map (\<lambda>c. case map_of upper_lower c of None \<Rightarrow> c | Some l \<Rightarrow> l) s"

text \<open>The dictionary of line 127.\<close>

definition success_words :: "(string \<times> bool) list" where
  "success_words = [(''true'', True), (''false'', False), (''yes'', True), (''no'', False)]"

text \<open>
  Line 127, taken when the dtype is object:
  \<^verbatim>\<open>astype(str).str.lower().map({...})\<close>. A word outside the dictionary maps to
  NaN; \<^verbatim>\<open>str\<close> of NaN is \<^verbatim>\<open>nan\<close>, and \<^verbatim>\<open>str\<close> of a number is never one of
  the four words. Text columns have dtype object, as the test of line 126 expects.
\<close>

fun str_lower_map :: "success_cell \<Rightarrow> bool option" where
  "str_lower_map (S_str s) = map_of success_words (lower s)"
| "str_lower_map (S_bool b) = map_of success_words (lower (if b then ''True'' else ''False''))"
| "str_lower_map S_nan = map_of success_words (lower ''nan'')"
| "str_lower_map (S_num x) = None"

text \<open>
  Line 129, \<^verbatim>\<open>astype('boolean')\<close>, on a column that line 127 has not mapped: the
  nullable boolean type takes booleans, blanks and the numbers 0 and 1, and raises
  \<^verbatim>\<open>TypeError: Need to pass bool-like values\<close> on anything else.
\<close>

fun astype_boolean :: "success_cell \<Rightarrow> py_error + bool option" where
  "astype_boolean (S_bool b) = Inr (Some b)"
| "astype_boolean S_nan = Inr None"
| "astype_boolean (S_num x) =
     (if x = Finite 1 then Inr (Some True)
      else if x = Finite 0 then Inr (Some False)
      else Inl TypeError)"
| "astype_boolean (S_str s) = Inl TypeError"

fun fillna_False :: "bool option \<Rightarrow> bool" where
  "fillna_False None = False"
| "fillna_False (Some b) = b"

definition convert_success :: "dtype \<Rightarrow> success_cell \<Rightarrow> py_error + bool" where
  "convert_success d c =
     (if d = Dtype_object then Inr (fillna_False (str_lower_map c))
      else (case astype_boolean c of Inl e \<Rightarrow> Inl e | Inr b \<Rightarrow> Inr (fillna_False b)))"

subsection \<open>The whole frame\<close>

definition convert_row :: "dtype \<Rightarrow> csv_row \<Rightarrow> py_error + row" where
  "convert_row d r =
     (case to_datetime (Timestamp r) of
        Inl e \<Rightarrow> Inl e
      | Inr t \<Rightarrow>
          (case convert_success d (Success r) of
             Inl e \<Rightarrow> Inl e
           | Inr ok \<Rightarrow>
               Inr \<lparr>timestamp = t, check_type = CheckType r, check_name = CheckName r,
                    target_host = TargetHost r, target_port = to_numeric (TargetPort r),
                    success = ok, details = Details r\<rparr>))"

text \<open>
  The Timestamp column is converted first (line 119), so a text that does not parse
  raises before the Success column is looked at (lines 126 to 129).
\<close>

definition convert :: "csv_row list \<Rightarrow> py_error + row list" where
  "convert df =
     (case map_raise to_datetime (map Timestamp df) of
        Inl e \<Rightarrow> Inl e
      | Inr stamps \<Rightarrow> map_raise (convert_row (success_dtype (map Success df))) df)"

section \<open>The decision, lines 131 to 202\<close>

text \<open>
  The two strings the function returns are renderings of an instant by
  \<^verbatim>\<open>strftime('%Y-%m-%d %H:%M:%S')\<close>; the rendering is kept symbolic.
\<close>

datatype time_str = Strftime int

text \<open>What the function prints about the run.\<close>

datatype message =
    Csv_empty                \<comment> \<open>line 114\<close>
  | Conversion_error         \<comment> \<open>line 123\<close>
  | All_timestamps_invalid   \<comment> \<open>line 133\<close>
  | No_results_for_latest    \<comment> \<open>line 143\<close>
  | Status_ok                \<comment> \<open>line 151\<close>
  | Alert_condition_met      \<comment> \<open>line 170\<close>
  | Non_critical_warning     \<comment> \<open>line 187\<close>
  | Analysis_error           \<comment> \<open>line 211\<close>

text \<open>
  The returned pair, the message, and the two local lists \<^verbatim>\<open>critical_failures\<close>
  (line 172) and \<^verbatim>\<open>non_critical_failures\<close> (line 189); a list is empty where the
  branch that assigns it is not taken.
\<close>

record outcome =
  send_alert :: bool
  latest_timestamp_str :: time_str
  printed :: message
  critical_failures :: "row list"
  non_critical_failures :: "row list"

definition no_decision :: "message \<Rightarrow> int \<Rightarrow> outcome" where
  "no_decision m now =
     \<lparr>send_alert = False, latest_timestamp_str = Strftime now, printed = m,
      critical_failures = [], non_critical_failures = []\<rparr>"

text \<open>
  \<^verbatim>\<open>Series.max()\<close> skips NaT. \<open>series_max\<close> is \<open>None\<close> exactly on a column of NaT
  only, which is the test \<^verbatim>\<open>isna().all()\<close> of line 132.
\<close>

fun dropna :: "'a option list \<Rightarrow> 'a list" where
  "dropna [] = []"
| "dropna (None # xs) = dropna xs"
| "dropna (Some x # xs) = x # dropna xs"

definition series_max :: "int option list \<Rightarrow> int option" where
  "series_max col = (case dropna col of [] \<Rightarrow> None | t # ts \<Rightarrow> Some (fold max ts t))"

definition latest_results :: "int \<Rightarrow> row list \<Rightarrow> row list" where
  "latest_results latest rows = filter (\<lambda>r. timestamp r = Some latest) rows"

definition all_failures :: "row list \<Rightarrow> row list" where
  "all_failures batch = filter (\<lambda>r. success r = False) batch"

text \<open>Lines 157 and 158.\<close>

definition rdp_mask :: "row \<Rightarrow> bool" where
  "rdp_mask r \<longleftrightarrow>
     check_type r = ''Inbound Listen Check'' \<and> target_port r = Some (Finite 3389)"

text \<open>Line 163.\<close>

definition outbound_mask :: "row \<Rightarrow> bool" where
  "outbound_mask r \<longleftrightarrow> check_type r \<in> set [''Outbound TCP'', ''Outbound ICMP'']"

text \<open>Lines 173 and 174, negated in lines 190 and 191.\<close>

definition critical_mask :: "row \<Rightarrow> bool" where
  "critical_mask r \<longleftrightarrow>
     (check_type r = ''Inbound Listen Check'' \<and> target_port r = Some (Finite 3389))
     \<or> check_type r \<in> set [''Outbound TCP'', ''Outbound ICMP'']"

text \<open>
  The detail lines of lines 177 to 182 and 193 to 198. The port of a row is shown as
  \<^verbatim>\<open>int(row['TargetPort'])\<close> unless it is NaN; \<^verbatim>\<open>int\<close> truncates towards zero and
  raises on an infinity. Only the first rows are shown: \<^verbatim>\<open>head(10)\<close> of the critical
  failures, \<^verbatim>\<open>head(5)\<close> of the others.
\<close>

definition py_int :: "real \<Rightarrow> int" where
  "py_int x = (if 0 \<le> x then \<lfloor>x\<rfloor> else \<lceil>x\<rceil>)"

fun port_str :: "number option \<Rightarrow> py_error + int option" where
  "port_str None = Inr None"
| "port_str (Some (Finite x)) = Inr (Some (py_int x))"
| "port_str (Some Pos_inf) = Inl OverflowError"
| "port_str (Some Neg_inf) = Inl OverflowError"

definition print_details :: "nat \<Rightarrow> row list \<Rightarrow> py_error + int option list" where
  "print_details n rows = map_raise (\<lambda>r. port_str (target_port r)) (take n rows)"

text \<open>
  An exception inside lines 131 to 202 leaves the function through the handler of lines
  210 to 212.
\<close>

definition analyze_latest :: "int \<Rightarrow> row list \<Rightarrow> py_error + outcome" where
  "analyze_latest now rows =
     (case series_max (map timestamp rows) of
        None \<Rightarrow> Inr (no_decision All_timestamps_invalid now)
      | Some latest \<Rightarrow>
          (let batch = latest_results latest rows in
           if batch = [] then
             Inr \<lparr>send_alert = False, latest_timestamp_str = Strftime latest,
                  printed = No_results_for_latest,
                  critical_failures = [], non_critical_failures = []\<rparr>
           else
             (let failures = all_failures batch in
              if failures = [] then
                Inr \<lparr>send_alert = False, latest_timestamp_str = Strftime latest,
                     printed = Status_ok,
                     critical_failures = [], non_critical_failures = []\<rparr>
              else
                (let is_rdp_failure = (filter rdp_mask failures \<noteq> []);
                     is_outbound_failure = (filter outbound_mask failures \<noteq> [])
                 in if is_rdp_failure \<or> is_outbound_failure then
                      (let critical = filter critical_mask failures in
                       case print_details 10 critical of
                         Inl e \<Rightarrow> Inl e
                       | Inr shown \<Rightarrow>
                           Inr \<lparr>send_alert = True, latest_timestamp_str = Strftime latest,
                                printed = Alert_condition_met,
                                critical_failures = critical,
                                non_critical_failures = []\<rparr>)
                    else
                      (let non_critical = filter (\<lambda>r. \<not> critical_mask r) failures in
                       case print_details 5 non_critical of
                         Inl e \<Rightarrow> Inl e
                       | Inr shown \<Rightarrow>
                           Inr \<lparr>send_alert = False, latest_timestamp_str = Strftime latest,
                                printed = Non_critical_warning,
                                critical_failures = [],
                                non_critical_failures = non_critical\<rparr>)))))"

text \<open>
  \<^verbatim>\<open>analyze_results\<close> from line 112 on, for a log file that exists and loads with
  the columns the function reads. \<open>now\<close> is the wall clock of line 89. The handler of
  lines 122 to 124 catches what line 119 raises, the handler of lines 210 to 212
  everything else; both return \<^verbatim>\<open>(False, now_str)\<close>.
\<close>

definition analyze_results :: "int \<Rightarrow> csv_row list \<Rightarrow> outcome" where
  "analyze_results now df =
     (if df = [] then no_decision Csv_empty now
      else
        (case convert df of
           Inl e \<Rightarrow>
             (if e = ValueError then no_decision Conversion_error now
              else no_decision Analysis_error now)
         | Inr rows \<Rightarrow>
             (case analyze_latest now rows of
                Inl e \<Rightarrow> no_decision Analysis_error now
              | Inr result \<Rightarrow> result)))"

section \<open>Sample rows\<close>

text \<open>A log row and a converted row with the fields the decision reads.\<close>

definition logged :: "timestamp_cell \<Rightarrow> string \<Rightarrow> number_cell \<Rightarrow> success_cell \<Rightarrow> csv_row" where
  "logged ts ty port ok =
     \<lparr>Timestamp = ts, CheckType = ty, CheckName = ''check'', TargetHost = ''host'',
      TargetPort = port, Success = ok, Details = []\<rparr>"

definition checked :: "int option \<Rightarrow> string \<Rightarrow> number option \<Rightarrow> bool \<Rightarrow> row" where
  "checked ts ty port ok =
     \<lparr>timestamp = ts, check_type = ty, check_name = ''check'', target_host = ''host'',
      target_port = port, success = ok, details = []\<rparr>"

section \<open>Facts about the conversions and the latest timestamp\<close>

lemma map_raise_Inr:
  "map_raise f xs = Inr ys \<Longrightarrow> list_all2 (\<lambda>x y. f x = Inr y) xs ys"
  by (induction xs arbitrary: ys) (auto split: sum.splits)

lemma map_raise_Inl:
  "map_raise f xs = Inl e \<Longrightarrow> \<exists>x\<in>set xs. f x = Inl e"
  by (induction xs) (auto split: sum.splits)

lemma to_datetime_bad:
  "Ts_bad \<in> set col \<Longrightarrow> map_raise to_datetime col = Inl ValueError"
proof (induction col)
  case Nil
  then show ?case by simp
next
  case (Cons c col)
  show ?case
  proof (cases c)
    case Ts_bad
    then show ?thesis by simp
  next
    case Ts_nan
    with Cons show ?thesis by simp
  next
    case (Ts_ok t)
    with Cons show ?thesis by simp
  qed
qed

lemma convert_rows:
  "convert df = Inr rows \<Longrightarrow>
     list_all2 (\<lambda>r r'. convert_row (success_dtype (map Success df)) r = Inr r') df rows"
  unfolding convert_def by (auto split: sum.splits dest: map_raise_Inr)

lemma convert_row_fields:
  assumes "convert_row d r = Inr r'"
  shows "to_datetime (Timestamp r) = Inr (timestamp r')"
    and "check_type r' = CheckType r"
    and "target_port r' = to_numeric (TargetPort r)"
    and "convert_success d (Success r) = Inr (success r')"
  using assms by (auto simp: convert_row_def split: sum.splits)

lemma convert_bad_timestamp:
  "Ts_bad \<in> Timestamp ` set df \<Longrightarrow> convert df = Inl ValueError"
  unfolding convert_def by (simp add: to_datetime_bad)

lemma convert_length: "convert df = Inr rows \<Longrightarrow> length rows = length df"
  by (drule convert_rows) (simp add: list_all2_lengthD)

lemma dropna_set: "set (dropna col) = {x. Some x \<in> set col}"
  by (induction col rule: dropna.induct) auto

lemma fold_max_Max: "fold max ts (t::int) = Max (set (t # ts))"
  by (simp only: Max.set_eq_fold)

lemma series_max_None: "series_max col = None \<longleftrightarrow> (\<forall>x\<in>set col. x = None)"
proof -
  have "dropna col = [] \<longleftrightarrow> (\<forall>x\<in>set col. x = None)"
    by (induction col rule: dropna.induct) auto
  then show ?thesis by (cases "dropna col") (simp_all add: series_max_def)
qed

lemma series_max_Some:
  assumes "series_max col = Some t"
  shows "Some t \<in> set col" and "\<And>u. Some u \<in> set col \<Longrightarrow> u \<le> t"
proof -
  from assms obtain x xs where d: "dropna col = x # xs" and t: "t = Max (set (x # xs))"
    by (auto simp: series_max_def fold_max_Max split: list.splits)
  have "t \<in> set (x # xs)" unfolding t by (rule Max_in) simp_all
  then show "Some t \<in> set col" using dropna_set[of col] d by auto
  fix u assume "Some u \<in> set col"
  then have "u \<in> set (x # xs)" using dropna_set[of col] d by auto
  then show "u \<le> t" unfolding t by (intro Max_ge) simp_all
qed

lemma series_max_exists: "Some u \<in> set col \<Longrightarrow> \<exists>t. series_max col = Some t"
  using series_max_None[of col] by (cases "series_max col") auto

lemma latest_results_nonempty:
  "series_max (map timestamp rows) = Some latest \<Longrightarrow> latest_results latest rows \<noteq> []"
  by (drule series_max_Some(1)) (auto simp: latest_results_def filter_empty_conv)

lemma critical_mask_iff: "critical_mask r \<longleftrightarrow> rdp_mask r \<or> outbound_mask r"
  by (simp add: critical_mask_def rdp_mask_def outbound_mask_def)

lemma map_raise_total:
  "\<forall>x\<in>set xs. \<exists>y. f x = Inr y \<Longrightarrow> \<exists>ys. map_raise f xs = Inr ys"
proof (induction xs)
  case Nil
  show ?case by simp
next
  case (Cons x xs)
  from Cons.prems obtain y where y: "f x = Inr y" by auto
  from Cons obtain ys where "map_raise f xs = Inr ys" by auto
  with y show ?case by simp
qed

lemma port_str_finite:
  "p \<noteq> Some Pos_inf \<Longrightarrow> p \<noteq> Some Neg_inf \<Longrightarrow> \<exists>y. port_str p = Inr y"
  by (cases p rule: port_str.cases) simp_all

lemma print_details_finite:
  assumes "\<forall>r\<in>set rows. target_port r \<noteq> Some Pos_inf \<and> target_port r \<noteq> Some Neg_inf"
  shows "\<exists>shown. print_details n rows = Inr shown"
  unfolding print_details_def
proof (rule map_raise_total, rule ballI)
  fix r assume "r \<in> set (take n rows)"
  then have "r \<in> set rows" by (rule in_set_takeD)
  with assms have "target_port r \<noteq> Some Pos_inf" "target_port r \<noteq> Some Neg_inf"
    by blast+
  then show "\<exists>y. port_str (target_port r) = Inr y" by (rule port_str_finite)
qed

lemma analyze_latest_cases:
  assumes "series_max (map timestamp rows) = Some latest"
    and "fs = all_failures (latest_results latest rows)"
  shows "analyze_latest now rows =
     (if fs = [] then
        Inr \<lparr>send_alert = False, latest_timestamp_str = Strftime latest, printed = Status_ok,
             critical_failures = [], non_critical_failures = []\<rparr>
      else if \<exists>r\<in>set fs. critical_mask r then
        (case print_details 10 (filter critical_mask fs) of
           Inl e \<Rightarrow> Inl e
         | Inr shown \<Rightarrow>
             Inr \<lparr>send_alert = True, latest_timestamp_str = Strftime latest,
                  printed = Alert_condition_met,
                  critical_failures = filter critical_mask fs,
                  non_critical_failures = []\<rparr>)
      else
        (case print_details 5 fs of
           Inl e \<Rightarrow> Inl e
         | Inr shown \<Rightarrow>
             Inr \<lparr>send_alert = False, latest_timestamp_str = Strftime latest,
                  printed = Non_critical_warning,
                  critical_failures = [], non_critical_failures = fs\<rparr>))"
proof -
  have ne: "latest_results latest rows \<noteq> []"
    using assms(1) by (rule latest_results_nonempty)
  have ex: "(filter rdp_mask fs \<noteq> [] \<or> filter outbound_mask fs \<noteq> []) \<longleftrightarrow>
        (\<exists>r\<in>set fs. critical_mask r)"
    by (auto simp: filter_empty_conv critical_mask_iff)
  have all: "\<not> (\<exists>r\<in>set fs. critical_mask r) \<Longrightarrow> filter (\<lambda>r. \<not> critical_mask r) fs = fs"
    by (simp add: filter_id_conv)
  consider "fs = []" | "fs \<noteq> []" "\<exists>r\<in>set fs. critical_mask r"
    | "fs \<noteq> []" "\<not> (\<exists>r\<in>set fs. critical_mask r)"
    by blast
  then show ?thesis
  proof cases
    case 1
    then show ?thesis
      using ne by (simp add: analyze_latest_def assms(1) Let_def assms(2) [symmetric])
  next
    case 2
    then show ?thesis
      using ne ex
      by (simp add: analyze_latest_def assms(1) Let_def assms(2) [symmetric])
  next
    case 3
    then show ?thesis
      using ne ex all
      by (simp add: analyze_latest_def assms(1) Let_def assms(2) [symmetric])
  qed
qed

lemma analyze_latest_printed:
  assumes "series_max (map timestamp rows) = Some latest"
    and "fs = all_failures (latest_results latest rows)"
    and "\<forall>r\<in>set fs. target_port r \<noteq> Some Pos_inf \<and> target_port r \<noteq> Some Neg_inf"
  shows "analyze_latest now rows = Inr
     (if fs = [] then
        \<lparr>send_alert = False, latest_timestamp_str = Strftime latest, printed = Status_ok,
         critical_failures = [], non_critical_failures = []\<rparr>
      else if \<exists>r\<in>set fs. critical_mask r then
        \<lparr>send_alert = True, latest_timestamp_str = Strftime latest,
         printed = Alert_condition_met,
         critical_failures = filter critical_mask fs, non_critical_failures = []\<rparr>
      else
        \<lparr>send_alert = False, latest_timestamp_str = Strftime latest,
         printed = Non_critical_warning,
         critical_failures = [], non_critical_failures = fs\<rparr>)"
proof -
  from assms(3) obtain shown5 where 5: "print_details 5 fs = Inr shown5"
    using print_details_finite by blast
  from assms(3) have "\<forall>r\<in>set (filter critical_mask fs).
      target_port r \<noteq> Some Pos_inf \<and> target_port r \<noteq> Some Neg_inf"
    by simp
  then obtain shown10 where 10: "print_details 10 (filter critical_mask fs) = Inr shown10"
    using print_details_finite by blast
  show ?thesis
    by (simp only: analyze_latest_cases [OF assms(1,2)] 5 10 sum.case if_distrib [of Inr])
qed

lemma analyze_latest_Inr:
  assumes "series_max (map timestamp rows) = Some latest"
    and "fs = all_failures (latest_results latest rows)"
    and "analyze_latest now rows = Inr result"
  shows "result =
     (if fs = [] then
        \<lparr>send_alert = False, latest_timestamp_str = Strftime latest, printed = Status_ok,
         critical_failures = [], non_critical_failures = []\<rparr>
      else if \<exists>r\<in>set fs. critical_mask r then
        \<lparr>send_alert = True, latest_timestamp_str = Strftime latest,
         printed = Alert_condition_met,
         critical_failures = filter critical_mask fs, non_critical_failures = []\<rparr>
      else
        \<lparr>send_alert = False, latest_timestamp_str = Strftime latest,
         printed = Non_critical_warning,
         critical_failures = [], non_critical_failures = fs\<rparr>)"
proof -
  consider "fs = []" | "fs \<noteq> []" "\<exists>r\<in>set fs. critical_mask r"
    | "fs \<noteq> []" "\<not> (\<exists>r\<in>set fs. critical_mask r)"
    by blast
  then show ?thesis
  proof cases
    case 1
    with assms(3) show ?thesis
      unfolding analyze_latest_cases [OF assms(1,2)] by simp
  next
    case 2
    with assms(3) show ?thesis
      unfolding analyze_latest_cases [OF assms(1,2)] by (simp split: sum.splits)
  next
    case 3
    with assms(3) show ?thesis
      unfolding analyze_latest_cases [OF assms(1,2)] by (simp split: sum.splits)
  qed
qed

lemma analyze_latest_None:
  "series_max (map timestamp rows) = None \<Longrightarrow>
     analyze_latest now rows = Inr (no_decision All_timestamps_invalid now)"
  by (simp add: analyze_latest_def)

lemma analyze_results_converted:
  "convert df = Inr rows \<Longrightarrow> df \<noteq> [] \<Longrightarrow>
     analyze_results now df =
       (case analyze_latest now rows of
          Inl e \<Rightarrow> no_decision Analysis_error now
        | Inr result \<Rightarrow> result)"
  by (simp add: analyze_results_def)

lemma analyze_results_printed:
  "convert df = Inr rows \<Longrightarrow> df \<noteq> [] \<Longrightarrow> analyze_latest now rows = Inr result \<Longrightarrow>
     analyze_results now df = result"
  by (simp add: analyze_results_def)

lemma analyze_results_raised:
  "convert df = Inl e \<Longrightarrow>
     send_alert (analyze_results now df) = False
     \<and> latest_timestamp_str (analyze_results now df) = Strftime now
     \<and> critical_failures (analyze_results now df) = []
     \<and> non_critical_failures (analyze_results now df) = []"
  by (simp add: analyze_results_def no_decision_def)

lemma list_all2_from_right:
  "list_all2 P xs ys \<Longrightarrow> y \<in> set ys \<Longrightarrow> \<exists>x\<in>set xs. P x y"
  by (induction rule: list_all2_induct) auto

lemma list_all2_from_left:
  "list_all2 P xs ys \<Longrightarrow> x \<in> set xs \<Longrightarrow> \<exists>y\<in>set ys. P x y"
  by (induction rule: list_all2_induct) auto

lemma converted_member:
  assumes "convert df = Inr rows" and "r' \<in> set rows"
  shows "\<exists>r\<in>set df. convert_row (success_dtype (map Success df)) r = Inr r'"
  using convert_rows [OF assms(1)] assms(2) by (rule list_all2_from_right)

lemma converted_image:
  assumes "convert df = Inr rows" and "r \<in> set df"
  shows "\<exists>r'\<in>set rows. convert_row (success_dtype (map Success df)) r = Inr r'"
  using convert_rows [OF assms(1)] assms(2) by (rule list_all2_from_left)

lemma converted_pair:
  assumes "convert df = Inr rows" and "(r, r') \<in> set (zip df rows)"
  shows "convert_row (success_dtype (map Success df)) r = Inr r'"
  using convert_rows [OF assms(1)] assms(2) by (auto simp: list_all2_iff)

lemma series_max_rows_nonempty:
  "series_max (map timestamp rows) = Some latest \<Longrightarrow> rows \<noteq> []"
  by (auto simp: series_max_def)

lemma failures_member:
  "r \<in> set (all_failures (latest_results latest rows)) \<longleftrightarrow>
     r \<in> set rows \<and> timestamp r = Some latest \<and> \<not> success r"
  by (auto simp: all_failures_def latest_results_def)

lemma critical_mask_words:
  "critical_mask r \<longleftrightarrow>
     (check_type r = ''Inbound Listen Check'' \<and> target_port r = Some (Finite 3389))
     \<or> check_type r = ''Outbound TCP'' \<or> check_type r = ''Outbound ICMP''"
  by (simp add: critical_mask_def)

lemma analyze_latest_None_Inr:
  assumes "series_max (map timestamp rows) = None"
    and "analyze_latest now rows = Inr result"
  shows "result = no_decision All_timestamps_invalid now"
  using assms by (auto simp: analyze_latest_def)

lemma critical_failures_critical:
  assumes "analyze_latest now rows = Inr result"
    and "r \<in> set (critical_failures result)"
  shows "critical_mask r"
proof (cases "series_max (map timestamp rows)")
  case None
  from analyze_latest_None_Inr [OF None assms(1)] assms(2) show ?thesis
    by (simp add: no_decision_def)
next
  case (Some latest)
  from analyze_latest_Inr [OF Some refl assms(1)] assms(2) show ?thesis
    by (simp split: if_splits)
qed

lemma alert_has_cause:
  assumes "analyze_latest now rows = Inr result" and "send_alert result"
  shows "\<exists>latest r. series_max (map timestamp rows) = Some latest \<and> r \<in> set rows
     \<and> timestamp r = Some latest \<and> \<not> success r \<and> critical_mask r"
proof (cases "series_max (map timestamp rows)")
  case None
  from analyze_latest_None_Inr [OF None assms(1)] assms(2) show ?thesis
    by (simp add: no_decision_def)
next
  case (Some latest)
  from analyze_latest_Inr [OF Some refl assms(1)] assms(2)
  have "\<exists>r\<in>set (all_failures (latest_results latest rows)). critical_mask r"
    by (simp split: if_splits)
  then obtain r where "r \<in> set (all_failures (latest_results latest rows))" "critical_mask r"
    by blast
  then have "r \<in> set rows \<and> timestamp r = Some latest \<and> \<not> success r \<and> critical_mask r"
    by (simp add: failures_member)
  with Some show ?thesis by blast
qed

section \<open>What the decision guarantees\<close>

text \<open>
  C4. On an empty frame, and on a frame none of whose timestamps parses (each is blank
  or a text that \<^verbatim>\<open>pd.to_datetime\<close> rejects), the function returns no alert, the
  wall-clock time as timestamp, and names no critical and no non-critical failure.
\<close>

theorem no_data_no_alert:
  assumes "df = [] \<or> (\<forall>r\<in>set df. Timestamp r = Ts_nan \<or> Timestamp r = Ts_bad)"
  shows "send_alert (analyze_results now df) = False
     \<and> latest_timestamp_str (analyze_results now df) = Strftime now
     \<and> critical_failures (analyze_results now df) = []
     \<and> non_critical_failures (analyze_results now df) = []"
proof (cases "df = []")
  case True
  then show ?thesis by (simp add: analyze_results_def no_decision_def)
next
  case False
  with assms have unparsed: "\<forall>r\<in>set df. Timestamp r = Ts_nan \<or> Timestamp r = Ts_bad"
    by simp
  show ?thesis
  proof (cases "convert df")
    case (Inl e)
    then show ?thesis by (rule analyze_results_raised)
  next
    case (Inr rows)
    have "timestamp r' = None" if "r' \<in> set rows" for r'
    proof -
      from converted_member [OF Inr that] obtain r where
        r: "r \<in> set df" "convert_row (success_dtype (map Success df)) r = Inr r'"
        by blast
      from convert_row_fields(1) [OF r(2)] unparsed r(1) show ?thesis
        by auto
    qed
    then have "series_max (map timestamp rows) = None"
      by (simp add: series_max_None)
    then have "analyze_latest now rows = Inr (no_decision All_timestamps_invalid now)"
      by (rule analyze_latest_None)
    with Inr False have "analyze_results now df = no_decision All_timestamps_invalid now"
      by (rule analyze_results_printed)
    then show ?thesis by (simp add: no_decision_def)
  qed
qed

theorem no_data_no_alert_witness:
  "send_alert (analyze_results 7 []) = False
   \<and> latest_timestamp_str (analyze_results 7 []) = Strftime 7
   \<and> send_alert (analyze_results 7
        [logged Ts_bad ''Outbound TCP'' (Num_ok (Finite 443)) (S_bool False),
         logged Ts_nan ''Outbound ICMP'' Num_nan (S_bool False)]) = False
   \<and> latest_timestamp_str (analyze_results 7
        [logged Ts_bad ''Outbound TCP'' (Num_ok (Finite 443)) (S_bool False),
         logged Ts_nan ''Outbound ICMP'' Num_nan (S_bool False)]) = Strftime 7"
  using no_data_no_alert [of "[]" 7]
    no_data_no_alert [of "[logged Ts_bad ''Outbound TCP'' (Num_ok (Finite 443)) (S_bool False),
         logged Ts_nan ''Outbound ICMP'' Num_nan (S_bool False)]" 7]
  by (simp add: logged_def)

text \<open>
  C10. When some row of the log has a timestamp that parses, the rows at the latest
  timestamp are not empty, so the function never reports that no result matches the
  latest timestamp (the branch of lines 142 to 144).
\<close>

theorem latest_batch_nonempty:
  assumes "\<exists>r\<in>set df. \<exists>t. Timestamp r = Ts_ok t"
  shows "printed (analyze_results now df) \<noteq> No_results_for_latest
     \<and> (\<forall>rows. convert df = Inr rows \<longrightarrow>
          (\<exists>latest. series_max (map timestamp rows) = Some latest
             \<and> latest_results latest rows \<noteq> []))"
proof
  from assms have ne: "df \<noteq> []" by auto
  show "printed (analyze_results now df) \<noteq> No_results_for_latest"
  proof (cases "convert df")
    case (Inl e)
    then show ?thesis
      using ne by (simp add: analyze_results_def no_decision_def)
  next
    case (Inr rows)
    show ?thesis
    proof (cases "analyze_latest now rows")
      case (Inl e)
      with Inr ne show ?thesis
        by (simp add: analyze_results_def no_decision_def)
    next
      case result: (Inr result)
      with Inr ne have eq: "analyze_results now df = result"
        by (rule analyze_results_printed)
      show ?thesis
      proof (cases "series_max (map timestamp rows)")
        case None
        from analyze_latest_None_Inr [OF None result] show ?thesis
          unfolding eq by (simp add: no_decision_def)
      next
        case (Some latest)
        from analyze_latest_Inr [OF Some refl result] show ?thesis
          unfolding eq by simp
      qed
    qed
  qed
next
  show "\<forall>rows. convert df = Inr rows \<longrightarrow>
          (\<exists>latest. series_max (map timestamp rows) = Some latest
             \<and> latest_results latest rows \<noteq> [])"
  proof (intro allI impI)
    fix rows assume conv: "convert df = Inr rows"
    from assms obtain r t where r: "r \<in> set df" "Timestamp r = Ts_ok t" by blast
    from converted_image [OF conv r(1)] obtain r' where
      r': "r' \<in> set rows" "convert_row (success_dtype (map Success df)) r = Inr r'"
      by blast
    from convert_row_fields(1) [OF r'(2)] r(2) have "timestamp r' = Some t" by simp
    then have "Some t \<in> set (map timestamp rows)" using r'(1) by force
    then obtain latest where "series_max (map timestamp rows) = Some latest"
      using series_max_exists by blast
    then show "\<exists>latest. series_max (map timestamp rows) = Some latest
             \<and> latest_results latest rows \<noteq> []"
      using latest_results_nonempty by blast
  qed
qed

theorem latest_batch_nonempty_witness:
  "(\<exists>t. Timestamp (logged (Ts_ok 100) ''Outbound TCP'' (Num_ok (Finite 443)) (S_bool True)) = Ts_ok t)
   \<and> printed (analyze_results 0
        [logged (Ts_ok 100) ''Outbound TCP'' (Num_ok (Finite 443)) (S_bool True),
         logged Ts_nan ''Outbound ICMP'' Num_nan (S_bool False)]) \<noteq> No_results_for_latest
   \<and> latest_results 100
        [checked (Some 100) ''Outbound TCP'' (Some (Finite 443)) True,
         checked None ''Outbound ICMP'' None False] \<noteq> []"
proof -
  have h: "\<exists>r\<in>set [logged (Ts_ok 100) ''Outbound TCP'' (Num_ok (Finite 443)) (S_bool True),
         logged Ts_nan ''Outbound ICMP'' Num_nan (S_bool False)]. \<exists>t. Timestamp r = Ts_ok t"
    by (simp add: logged_def)
  have c: "convert [logged (Ts_ok 100) ''Outbound TCP'' (Num_ok (Finite 443)) (S_bool True),
         logged Ts_nan ''Outbound ICMP'' Num_nan (S_bool False)]
       = Inr [checked (Some 100) ''Outbound TCP'' (Some (Finite 443)) True,
         checked None ''Outbound ICMP'' None False]"
    by (simp add: logged_def checked_def convert_def convert_row_def convert_success_def
        success_dtype_def)
  have m: "series_max (map timestamp [checked (Some 100) ''Outbound TCP'' (Some (Finite 443)) True,
         checked None ''Outbound ICMP'' None False]) = Some 100"
    by (simp add: checked_def series_max_def)
  from latest_batch_nonempty [OF h, of 0] c m show ?thesis
    by (auto simp: logged_def)
qed

text \<open>
  C7. A failed inbound listen check whose port is blank or is no number does not match
  the port 3389 rule and is never in the critical list; when it is the only failed
  check of the latest batch, the function does not alert and lists it as a
  non-critical failure.
\<close>

theorem unparseable_port_not_critical:
  assumes "convert df = Inr rows"
    and "(r, r') \<in> set (zip df rows)"
    and "CheckType r = ''Inbound Listen Check''"
    and "TargetPort r = Num_nan \<or> TargetPort r = Num_bad"
  shows "target_port r' \<noteq> Some (Finite 3389)
     \<and> \<not> critical_mask r'
     \<and> r' \<notin> set (critical_failures (analyze_results now df))
     \<and> (series_max (map timestamp rows) = Some latest
          \<and> set (all_failures (latest_results latest rows)) = {r'} \<longrightarrow>
        \<not> send_alert (analyze_results now df)
        \<and> r' \<in> set (non_critical_failures (analyze_results now df)))"
proof -
  have row: "convert_row (success_dtype (map Success df)) r = Inr r'"
    using assms(1,2) by (rule converted_pair)
  from assms(2) have ne: "df \<noteq> []" by auto
  have port: "target_port r' = None"
    using convert_row_fields(3) [OF row] assms(4) by auto
  have type: "check_type r' = ''Inbound Listen Check''"
    using convert_row_fields(2) [OF row] assms(3) by simp
  have 1: "target_port r' \<noteq> Some (Finite 3389)" using port by simp
  have 2: "\<not> critical_mask r'" using port type by (simp add: critical_mask_def)
  have 3: "r' \<notin> set (critical_failures (analyze_results now df))"
  proof (cases "analyze_latest now rows")
    case (Inl e)
    with assms(1) ne show ?thesis
      by (simp add: analyze_results_def no_decision_def)
  next
    case (Inr result)
    with assms(1) ne have "analyze_results now df = result"
      by (rule analyze_results_printed)
    with 2 critical_failures_critical [OF Inr] show ?thesis by blast
  qed
  have 4: "series_max (map timestamp rows) = Some latest
          \<and> set (all_failures (latest_results latest rows)) = {r'} \<longrightarrow>
        \<not> send_alert (analyze_results now df)
        \<and> r' \<in> set (non_critical_failures (analyze_results now df))"
  proof
    assume h: "series_max (map timestamp rows) = Some latest
          \<and> set (all_failures (latest_results latest rows)) = {r'}"
    then have m: "series_max (map timestamp rows) = Some latest"
      and only: "set (all_failures (latest_results latest rows)) = {r'}"
      by simp_all
    from only port have shown: "\<forall>x\<in>set (all_failures (latest_results latest rows)).
        target_port x \<noteq> Some Pos_inf \<and> target_port x \<noteq> Some Neg_inf"
      by simp
    from only have some: "all_failures (latest_results latest rows) \<noteq> []" by auto
    from only 2 have none: "\<not> (\<exists>x\<in>set (all_failures (latest_results latest rows)).
        critical_mask x)"
      by simp
    have "analyze_latest now rows = Inr
        \<lparr>send_alert = False, latest_timestamp_str = Strftime latest,
         printed = Non_critical_warning, critical_failures = [],
         non_critical_failures = all_failures (latest_results latest rows)\<rparr>"
      using analyze_latest_printed [OF m refl shown, of now] some none by simp
    with assms(1) ne have "analyze_results now df =
        \<lparr>send_alert = False, latest_timestamp_str = Strftime latest,
         printed = Non_critical_warning, critical_failures = [],
         non_critical_failures = all_failures (latest_results latest rows)\<rparr>"
      by (rule analyze_results_printed)
    with only show "\<not> send_alert (analyze_results now df)
        \<and> r' \<in> set (non_critical_failures (analyze_results now df))"
      by simp
  qed
  from 1 2 3 4 show ?thesis by (intro conjI)
qed

theorem unparseable_port_not_critical_witness:
  "convert [logged (Ts_ok 100) ''Inbound Listen Check'' Num_bad (S_bool False)]
     = Inr [checked (Some 100) ''Inbound Listen Check'' None False]
   \<and> \<not> send_alert (analyze_results 0
       [logged (Ts_ok 100) ''Inbound Listen Check'' Num_bad (S_bool False)])
   \<and> checked (Some 100) ''Inbound Listen Check'' None False
       \<in> set (non_critical_failures (analyze_results 0
       [logged (Ts_ok 100) ''Inbound Listen Check'' Num_bad (S_bool False)]))"
proof -
  let ?r = "logged (Ts_ok 100) ''Inbound Listen Check'' Num_bad (S_bool False)"
  let ?r' = "checked (Some 100) ''Inbound Listen Check'' None False"
  have c: "convert [?r] = Inr [?r']"
    by (simp add: logged_def checked_def convert_def convert_row_def convert_success_def
        success_dtype_def)
  have z: "(?r, ?r') \<in> set (zip [?r] [?r'])" by simp
  have t: "CheckType ?r = ''Inbound Listen Check''" by (simp add: logged_def)
  have p: "TargetPort ?r = Num_nan \<or> TargetPort ?r = Num_bad" by (simp add: logged_def)
  have m: "series_max (map timestamp [?r']) = Some 100"
    by (simp add: checked_def series_max_def)
  have f: "set (all_failures (latest_results 100 [?r'])) = {?r'}"
    by (simp add: checked_def all_failures_def latest_results_def)
  from unparseable_port_not_critical [OF c z t p, of 0 100] m f
  have "\<not> send_alert (analyze_results 0 [?r])
        \<and> ?r' \<in> set (non_critical_failures (analyze_results 0 [?r]))"
    by blast
  with c show ?thesis by (intro conjI) simp_all
qed

text \<open>
  C8. The function is total: whatever the cells hold, an exception raised by a column
  conversion is caught and answered with no alert at the wall-clock time, and an
  alert is returned only when the latest batch has a failed row that matches the
  inbound port 3389 rule or is an outbound TCP or ICMP check.
\<close>

theorem always_a_decision:
  "(convert df = Inl e \<longrightarrow>
       send_alert (analyze_results now df) = False
       \<and> latest_timestamp_str (analyze_results now df) = Strftime now)
   \<and> (send_alert (analyze_results now df) \<longrightarrow>
       (\<exists>rows latest r. convert df = Inr rows
          \<and> series_max (map timestamp rows) = Some latest
          \<and> r \<in> set rows \<and> timestamp r = Some latest \<and> \<not> success r
          \<and> ((check_type r = ''Inbound Listen Check'' \<and> target_port r = Some (Finite 3389))
             \<or> check_type r = ''Outbound TCP'' \<or> check_type r = ''Outbound ICMP'')))"
proof (intro conjI impI)
  assume "convert df = Inl e"
  then show "send_alert (analyze_results now df) = False"
    and "latest_timestamp_str (analyze_results now df) = Strftime now"
    using analyze_results_raised [of df e now] by simp_all
next
  assume alert: "send_alert (analyze_results now df)"
  then have ne: "df \<noteq> []" by (auto simp: analyze_results_def no_decision_def)
  from alert obtain rows where rows: "convert df = Inr rows"
    using analyze_results_raised [of df _ now] by (cases "convert df") auto
  from alert rows ne obtain result where result: "analyze_latest now rows = Inr result"
    by (cases "analyze_latest now rows") (auto simp: analyze_results_def no_decision_def)
  with rows ne have "analyze_results now df = result"
    by (rule analyze_results_printed)
  with alert have "send_alert result" by simp
  with result obtain latest r where "series_max (map timestamp rows) = Some latest"
    "r \<in> set rows" "timestamp r = Some latest" "\<not> success r" "critical_mask r"
    using alert_has_cause by blast
  with rows show "\<exists>rows latest r. convert df = Inr rows
          \<and> series_max (map timestamp rows) = Some latest
          \<and> r \<in> set rows \<and> timestamp r = Some latest \<and> \<not> success r
          \<and> ((check_type r = ''Inbound Listen Check'' \<and> target_port r = Some (Finite 3389))
             \<or> check_type r = ''Outbound TCP'' \<or> check_type r = ''Outbound ICMP'')"
    unfolding critical_mask_words by blast
qed

theorem always_a_decision_witness:
  "convert [logged Ts_bad ''Outbound TCP'' Num_bad (S_str ''??'')] = Inl ValueError
   \<and> send_alert (analyze_results 7
        [logged Ts_bad ''Outbound TCP'' Num_bad (S_str ''??'')]) = False
   \<and> latest_timestamp_str (analyze_results 7
        [logged Ts_bad ''Outbound TCP'' Num_bad (S_str ''??'')]) = Strftime 7
   \<and> send_alert (analyze_results 7
        [logged (Ts_ok 100) ''Outbound TCP'' Num_bad (S_str ''??'')])
   \<and> convert [logged (Ts_ok 100) ''Outbound TCP'' Num_bad (S_str ''??'')]
     = Inr [checked (Some 100) ''Outbound TCP'' None False]"
proof -
  let ?bad = "[logged Ts_bad ''Outbound TCP'' Num_bad (S_str ''??'')]"
  let ?df = "[logged (Ts_ok 100) ''Outbound TCP'' Num_bad (S_str ''??'')]"
  have c: "convert ?bad = Inl ValueError"
    by (simp add: logged_def convert_def)
  have a: "send_alert (analyze_results 7 ?df)"
    by (simp add: logged_def analyze_results_def convert_def convert_row_def
        convert_success_def success_dtype_def success_words_def lower_def upper_lower_def
        analyze_latest_def series_max_def print_details_def critical_mask_def
        latest_results_def all_failures_def rdp_mask_def outbound_mask_def Let_def)
  have k: "convert ?df = Inr [checked (Some 100) ''Outbound TCP'' None False]"
    by (simp add: logged_def checked_def convert_def convert_row_def convert_success_def
        success_dtype_def success_words_def lower_def upper_lower_def)
  from always_a_decision [where df = ?bad and e = ValueError and now = 7] c
  have 1: "send_alert (analyze_results 7 ?bad) = False
       \<and> latest_timestamp_str (analyze_results 7 ?bad) = Strftime 7"
    by blast
  from always_a_decision [where df = ?df and now = 7] a
  have "\<exists>rows. convert ?df = Inr rows" by blast
  with c 1 a k show ?thesis by (intro conjI) simp_all
qed

lemma unreadable_success_is_failure:
  assumes "convert df = Inr rows"
    and "(r, r') \<in> set (zip df rows)"
    and "Success r = S_nan \<or> (\<exists>s. Success r = S_str s \<and> map_of success_words (lower s) = None)"
  shows "success r' = False"
proof -
  let ?d = "success_dtype (map Success df)"
  have "convert_row ?d r = Inr r'"
    using assms(1,2) by (rule converted_pair)
  then have ok: "convert_success ?d (Success r) = Inr (success r')"
    by (rule convert_row_fields(4))
  from assms(3) show ?thesis
  proof
    assume "Success r = S_nan"
    with ok show ?thesis
      by (cases "?d = Dtype_object")
        (simp_all add: convert_success_def lower_def upper_lower_def success_words_def)
  next
    assume "\<exists>s. Success r = S_str s \<and> map_of success_words (lower s) = None"
    then obtain s where "Success r = S_str s" "map_of success_words (lower s) = None"
      by blast
    with ok show ?thesis
      by (cases "?d = Dtype_object") (simp_all add: convert_success_def)
  qed
qed

text \<open>
  C6 fails on a Success column that holds numbers only, one of them neither 0 nor 1:
  the column is not of dtype object, line 127 is skipped, and
  \<^verbatim>\<open>astype('boolean')\<close> of line 129 raises instead of giving False. The handler of
  lines 210 to 212 returns no alert, so the failed outbound check is not counted; with
  a blank Success cell the same row alerts.
\<close>

theorem numeric_success_not_coerced:
  "convert [logged (Ts_ok 100) ''Outbound TCP'' (Num_ok (Finite 443)) (S_num (Finite 2))]
     = Inl TypeError
   \<and> send_alert (analyze_results 7
        [logged (Ts_ok 100) ''Outbound TCP'' (Num_ok (Finite 443)) (S_num (Finite 2))]) = False
   \<and> printed (analyze_results 7
        [logged (Ts_ok 100) ''Outbound TCP'' (Num_ok (Finite 443)) (S_num (Finite 2))])
     = Analysis_error
   \<and> send_alert (analyze_results 7
        [logged (Ts_ok 100) ''Outbound TCP'' (Num_ok (Finite 443)) S_nan]) = True"
  by (simp add: logged_def analyze_results_def convert_def convert_row_def
      convert_success_def success_dtype_def no_decision_def
      analyze_latest_def series_max_def print_details_def critical_mask_def
      latest_results_def all_failures_def rdp_mask_def outbound_mask_def Let_def)

lemma failures_subset: "set (all_failures (latest_results latest rows)) \<subseteq> set rows"
  by (auto simp: all_failures_def latest_results_def)

lemma printed_stamp:
  "latest_timestamp_str
     (if a then
        \<lparr>send_alert = False, latest_timestamp_str = Strftime latest, printed = Status_ok,
         critical_failures = [], non_critical_failures = []\<rparr>
      else if b then
        \<lparr>send_alert = True, latest_timestamp_str = Strftime latest,
         printed = Alert_condition_met,
         critical_failures = cs, non_critical_failures = []\<rparr>
      else
        \<lparr>send_alert = False, latest_timestamp_str = Strftime latest,
         printed = Non_critical_warning,
         critical_failures = [], non_critical_failures = ns\<rparr>) = Strftime latest"
  by simp

text \<open>
  C1 fails on a failed outbound check whose port reads as infinity: line 167 sets the
  alert, the detail line of line 178 raises on \<^verbatim>\<open>int\<close> of the infinity, and the
  handler of lines 210 to 212 returns no alert at the wall-clock time. With a finite
  port the same row alerts.
\<close>

theorem alert_lost_to_print_error:
  "convert [logged (Ts_ok 100) ''Outbound TCP'' (Num_ok Pos_inf) (S_bool False)]
     = Inr [checked (Some 100) ''Outbound TCP'' (Some Pos_inf) False]
   \<and> all_failures (latest_results 100 [checked (Some 100) ''Outbound TCP'' (Some Pos_inf) False])
     = [checked (Some 100) ''Outbound TCP'' (Some Pos_inf) False]
   \<and> critical_mask (checked (Some 100) ''Outbound TCP'' (Some Pos_inf) False)
   \<and> analyze_latest 7 [checked (Some 100) ''Outbound TCP'' (Some Pos_inf) False]
     = Inl OverflowError
   \<and> send_alert (analyze_results 7
        [logged (Ts_ok 100) ''Outbound TCP'' (Num_ok Pos_inf) (S_bool False)]) = False
   \<and> latest_timestamp_str (analyze_results 7
        [logged (Ts_ok 100) ''Outbound TCP'' (Num_ok Pos_inf) (S_bool False)]) = Strftime 7
   \<and> send_alert (analyze_results 7
        [logged (Ts_ok 100) ''Outbound TCP'' (Num_ok (Finite 443)) (S_bool False)]) = True"
  by (simp add: logged_def checked_def analyze_results_def convert_def convert_row_def
      convert_success_def success_dtype_def no_decision_def
      analyze_latest_def series_max_def print_details_def critical_mask_def
      latest_results_def all_failures_def rdp_mask_def outbound_mask_def Let_def)

lemma alert_iff_critical_when_printed:
  assumes "convert df = Inr rows"
    and "series_max (map timestamp rows) = Some latest"
    and "\<forall>r\<in>set rows. target_port r \<noteq> Some Pos_inf \<and> target_port r \<noteq> Some Neg_inf"
  shows "send_alert (analyze_results now df) \<longleftrightarrow>
     (\<exists>r\<in>set rows. timestamp r = Some latest \<and> \<not> success r \<and> critical_mask r)"
proof -
  have ne: "df \<noteq> []"
    using assms(1,2) series_max_rows_nonempty convert_length by fastforce
  from assms(3) failures_subset [of latest rows]
  have shown: "\<forall>r\<in>set (all_failures (latest_results latest rows)).
      target_port r \<noteq> Some Pos_inf \<and> target_port r \<noteq> Some Neg_inf"
    by blast
  from assms(1) ne analyze_latest_printed [OF assms(2) refl shown, of now]
  have "analyze_results now df =
     (if all_failures (latest_results latest rows) = [] then
        \<lparr>send_alert = False, latest_timestamp_str = Strftime latest, printed = Status_ok,
         critical_failures = [], non_critical_failures = []\<rparr>
      else if \<exists>r\<in>set (all_failures (latest_results latest rows)). critical_mask r then
        \<lparr>send_alert = True, latest_timestamp_str = Strftime latest,
         printed = Alert_condition_met,
         critical_failures = filter critical_mask (all_failures (latest_results latest rows)),
         non_critical_failures = []\<rparr>
      else
        \<lparr>send_alert = False, latest_timestamp_str = Strftime latest,
         printed = Non_critical_warning,
         critical_failures = [],
         non_critical_failures = all_failures (latest_results latest rows)\<rparr>)"
    by (rule analyze_results_printed)
  then have "send_alert (analyze_results now df) \<longleftrightarrow>
      (\<exists>r\<in>set (all_failures (latest_results latest rows)). critical_mask r)"
    by auto
  then show ?thesis by (auto simp: failures_member)
qed

text \<open>
  C3 fails through the Success column, which is converted as a whole: an older row
  whose Success cell is a number other than 0 and 1 makes line 129 raise, and the
  function returns no alert although the latest batch holds a failed outbound check;
  an older row whose Success cell is a text makes the column of dtype object, and the
  1 of the latest row is then read as a failure.
\<close>

theorem older_row_changes_decision:
  "send_alert (analyze_results 7
       [logged (Ts_ok 200) ''Outbound TCP'' (Num_ok (Finite 443)) (S_num (Finite 0))]) = True
   \<and> send_alert (analyze_results 7
       [logged (Ts_ok 200) ''Outbound TCP'' (Num_ok (Finite 443)) (S_num (Finite 0)),
        logged (Ts_ok 100) ''Inbound Listen Check'' (Num_ok (Finite 22)) (S_num (Finite 2))])
     = False
   \<and> latest_timestamp_str (analyze_results 7
       [logged (Ts_ok 200) ''Outbound TCP'' (Num_ok (Finite 443)) (S_num (Finite 0)),
        logged (Ts_ok 100) ''Inbound Listen Check'' (Num_ok (Finite 22)) (S_num (Finite 2))])
     = Strftime 7
   \<and> send_alert (analyze_results 7
       [logged (Ts_ok 200) ''Outbound TCP'' (Num_ok (Finite 443)) (S_num (Finite 1))]) = False
   \<and> send_alert (analyze_results 7
       [logged (Ts_ok 200) ''Outbound TCP'' (Num_ok (Finite 443)) (S_num (Finite 1)),
        logged (Ts_ok 100) ''Inbound Listen Check'' (Num_ok (Finite 22)) (S_str ''maybe'')])
     = True"
  by (simp add: logged_def analyze_results_def convert_def convert_row_def
      convert_success_def success_dtype_def no_decision_def
      success_words_def lower_def upper_lower_def
      analyze_latest_def series_max_def print_details_def critical_mask_def
      latest_results_def all_failures_def rdp_mask_def outbound_mask_def Let_def)

text \<open>
  C2, as the code has it. The critical filter (lines 172 to 175) and the non-critical
  filter (lines 189 to 192) split the failed rows of the latest batch into two disjoint
  parts that together are all of them. When no failed row of the latest batch has an
  infinite port, the function builds the critical list exactly when it alerts, and
  the non-critical list exactly when it does not: that list then holds every failed
  row, none of them critical. The other list is not built.
\<close>

theorem failure_lists_partition:
  assumes "convert df = Inr rows"
    and "series_max (map timestamp rows) = Some latest"
    and "fs = all_failures (latest_results latest rows)"
    and "\<forall>r\<in>set fs. target_port r \<noteq> Some Pos_inf \<and> target_port r \<noteq> Some Neg_inf"
  shows "set (filter critical_mask fs) \<inter> set (filter (\<lambda>r. \<not> critical_mask r) fs) = {}
     \<and> set (filter critical_mask fs) \<union> set (filter (\<lambda>r. \<not> critical_mask r) fs) = set fs
     \<and> set (filter critical_mask fs)
         = {r \<in> set fs.
              (check_type r = ''Inbound Listen Check'' \<and> target_port r = Some (Finite 3389))
              \<or> check_type r = ''Outbound TCP'' \<or> check_type r = ''Outbound ICMP''}
     \<and> (send_alert (analyze_results now df) \<longleftrightarrow> filter critical_mask fs \<noteq> [])
     \<and> (send_alert (analyze_results now df) \<longrightarrow>
          critical_failures (analyze_results now df) = filter critical_mask fs
          \<and> non_critical_failures (analyze_results now df) = [])
     \<and> (\<not> send_alert (analyze_results now df) \<longrightarrow>
          critical_failures (analyze_results now df) = []
          \<and> non_critical_failures (analyze_results now df) = fs
          \<and> filter (\<lambda>r. \<not> critical_mask r) fs = fs)"
proof -
  have ne: "df \<noteq> []"
    using assms(1,2) series_max_rows_nonempty convert_length by fastforce
  from assms(1) ne analyze_latest_printed [OF assms(2,3,4), of now]
  have eq: "analyze_results now df =
     (if fs = [] then
        \<lparr>send_alert = False, latest_timestamp_str = Strftime latest, printed = Status_ok,
         critical_failures = [], non_critical_failures = []\<rparr>
      else if \<exists>r\<in>set fs. critical_mask r then
        \<lparr>send_alert = True, latest_timestamp_str = Strftime latest,
         printed = Alert_condition_met,
         critical_failures = filter critical_mask fs, non_critical_failures = []\<rparr>
      else
        \<lparr>send_alert = False, latest_timestamp_str = Strftime latest,
         printed = Non_critical_warning,
         critical_failures = [], non_critical_failures = fs\<rparr>)"
    by (rule analyze_results_printed)
  have some: "filter critical_mask fs \<noteq> [] \<longleftrightarrow> (\<exists>r\<in>set fs. critical_mask r)"
    by (simp add: filter_empty_conv)
  have 1: "set (filter critical_mask fs) \<inter> set (filter (\<lambda>r. \<not> critical_mask r) fs) = {}"
    by auto
  have 2: "set (filter critical_mask fs) \<union> set (filter (\<lambda>r. \<not> critical_mask r) fs) = set fs"
    by auto
  have 3: "send_alert (analyze_results now df) \<longleftrightarrow> filter critical_mask fs \<noteq> []"
    unfolding eq some by auto
  have 4: "send_alert (analyze_results now df) \<longrightarrow>
          critical_failures (analyze_results now df) = filter critical_mask fs
          \<and> non_critical_failures (analyze_results now df) = []"
    unfolding eq by simp
  have 5: "\<not> send_alert (analyze_results now df) \<longrightarrow>
          critical_failures (analyze_results now df) = []
          \<and> non_critical_failures (analyze_results now df) = fs
          \<and> filter (\<lambda>r. \<not> critical_mask r) fs = fs"
    unfolding eq by (auto simp: filter_id_conv)
  have 6: "set (filter critical_mask fs)
         = {r \<in> set fs.
              (check_type r = ''Inbound Listen Check'' \<and> target_port r = Some (Finite 3389))
              \<or> check_type r = ''Outbound TCP'' \<or> check_type r = ''Outbound ICMP''}"
    by (auto simp: critical_mask_words)
  from 1 2 6 3 4 5 show ?thesis by (intro conjI)
qed

theorem failure_lists_partition_witness:
  "convert [logged (Ts_ok 100) ''Inbound Listen Check'' (Num_ok (Finite 3389)) (S_bool False),
            logged (Ts_ok 100) ''Inbound Listen Check'' (Num_ok (Finite 8080)) (S_bool False)]
     = Inr [checked (Some 100) ''Inbound Listen Check'' (Some (Finite 3389)) False,
            checked (Some 100) ''Inbound Listen Check'' (Some (Finite 8080)) False]
   \<and> send_alert (analyze_results 0
       [logged (Ts_ok 100) ''Inbound Listen Check'' (Num_ok (Finite 3389)) (S_bool False),
        logged (Ts_ok 100) ''Inbound Listen Check'' (Num_ok (Finite 8080)) (S_bool False)])
   \<and> critical_failures (analyze_results 0
       [logged (Ts_ok 100) ''Inbound Listen Check'' (Num_ok (Finite 3389)) (S_bool False),
        logged (Ts_ok 100) ''Inbound Listen Check'' (Num_ok (Finite 8080)) (S_bool False)])
     = [checked (Some 100) ''Inbound Listen Check'' (Some (Finite 3389)) False]
   \<and> non_critical_failures (analyze_results 0
       [logged (Ts_ok 100) ''Inbound Listen Check'' (Num_ok (Finite 3389)) (S_bool False),
        logged (Ts_ok 100) ''Inbound Listen Check'' (Num_ok (Finite 8080)) (S_bool False)])
     = []"
proof -
  let ?df = "[logged (Ts_ok 100) ''Inbound Listen Check'' (Num_ok (Finite 3389)) (S_bool False),
            logged (Ts_ok 100) ''Inbound Listen Check'' (Num_ok (Finite 8080)) (S_bool False)]"
  let ?rows = "[checked (Some 100) ''Inbound Listen Check'' (Some (Finite 3389)) False,
            checked (Some 100) ''Inbound Listen Check'' (Some (Finite 8080)) False]"
  have c: "convert ?df = Inr ?rows"
    by (simp add: logged_def checked_def convert_def convert_row_def convert_success_def
        success_dtype_def)
  have m: "series_max (map timestamp ?rows) = Some 100"
    by (simp add: checked_def series_max_def)
  have f: "?rows = all_failures (latest_results 100 ?rows)"
    by (simp add: checked_def all_failures_def latest_results_def)
  have p: "\<forall>r\<in>set ?rows. target_port r \<noteq> Some Pos_inf \<and> target_port r \<noteq> Some Neg_inf"
    by (simp add: checked_def)
  have k: "filter critical_mask ?rows
      = [checked (Some 100) ''Inbound Listen Check'' (Some (Finite 3389)) False]"
    by (simp add: checked_def critical_mask_def)
  from failure_lists_partition [OF c m f p, of 0] k
  have "send_alert (analyze_results 0 ?df)
     \<and> critical_failures (analyze_results 0 ?df)
        = [checked (Some 100) ''Inbound Listen Check'' (Some (Finite 3389)) False]
     \<and> non_critical_failures (analyze_results 0 ?df) = []"
    by simp
  with c show ?thesis by (intro conjI) simp_all
qed

text \<open>
  C2 as written fails on its own scenario: with one failed inbound listen check on port
  3389 and one on port 8080 the function alerts, and the non-critical list is not the
  port 8080 row: the branch that builds it (lines 185 to 200) is not run.
\<close>

theorem non_critical_listing_counterexample:
  "send_alert (analyze_results 0
       [logged (Ts_ok 100) ''Inbound Listen Check'' (Num_ok (Finite 3389)) (S_bool False),
        logged (Ts_ok 100) ''Inbound Listen Check'' (Num_ok (Finite 8080)) (S_bool False)])
   \<and> non_critical_failures (analyze_results 0
       [logged (Ts_ok 100) ''Inbound Listen Check'' (Num_ok (Finite 3389)) (S_bool False),
        logged (Ts_ok 100) ''Inbound Listen Check'' (Num_ok (Finite 8080)) (S_bool False)])
     \<noteq> [checked (Some 100) ''Inbound Listen Check'' (Some (Finite 8080)) False]"
  by (simp add: logged_def checked_def analyze_results_def convert_def convert_row_def
      convert_success_def success_dtype_def analyze_latest_def series_max_def
      print_details_def critical_mask_def
      latest_results_def all_failures_def rdp_mask_def outbound_mask_def Let_def)

text \<open>
  C9, as the code has it. When the column conversions go through, some timestamp is
  present and no port is infinite, the result does not depend on the wall clock and
  the returned timestamp is the latest one of the log.
\<close>

theorem converted_result_clock_free:
  assumes "convert df = Inr rows"
    and "\<exists>r\<in>set rows. timestamp r \<noteq> None"
    and "\<forall>r\<in>set rows. target_port r \<noteq> Some Pos_inf \<and> target_port r \<noteq> Some Neg_inf"
  shows "analyze_results now df = analyze_results now' df
     \<and> (\<exists>latest. series_max (map timestamp rows) = Some latest
          \<and> latest_timestamp_str (analyze_results now df) = Strftime latest)"
proof -
  from assms(2) obtain r t where r: "r \<in> set rows" "timestamp r = Some t" by auto
  from r(1) have "timestamp r \<in> timestamp ` set rows" by (rule imageI)
  with r(2) have "Some t \<in> set (map timestamp rows)" by simp
  then have "\<exists>latest. series_max (map timestamp rows) = Some latest"
    by (rule series_max_exists)
  then obtain latest where latest: "series_max (map timestamp rows) = Some latest" ..
  have ne: "df \<noteq> []"
    using assms(1) latest series_max_rows_nonempty convert_length by fastforce
  from assms(3) failures_subset [of latest rows]
  have shown: "\<forall>r\<in>set (all_failures (latest_results latest rows)).
      target_port r \<noteq> Some Pos_inf \<and> target_port r \<noteq> Some Neg_inf"
    by blast
  have eq: "analyze_results n df =
     (if all_failures (latest_results latest rows) = [] then
        \<lparr>send_alert = False, latest_timestamp_str = Strftime latest, printed = Status_ok,
         critical_failures = [], non_critical_failures = []\<rparr>
      else if \<exists>r\<in>set (all_failures (latest_results latest rows)). critical_mask r then
        \<lparr>send_alert = True, latest_timestamp_str = Strftime latest,
         printed = Alert_condition_met,
         critical_failures = filter critical_mask (all_failures (latest_results latest rows)),
         non_critical_failures = []\<rparr>
      else
        \<lparr>send_alert = False, latest_timestamp_str = Strftime latest,
         printed = Non_critical_warning,
         critical_failures = [],
         non_critical_failures = all_failures (latest_results latest rows)\<rparr>)" for n
    using assms(1) ne analyze_latest_printed [OF latest refl shown, of n]
    by (rule analyze_results_printed)
  have 1: "analyze_results now df = analyze_results now' df"
    by (subst eq [of now], rule eq [symmetric])
  have 2: "latest_timestamp_str (analyze_results now df) = Strftime latest"
    by (subst eq [of now], rule printed_stamp)
  from 1 latest 2 show ?thesis by blast
qed

theorem converted_result_clock_free_witness:
  "convert [logged Ts_nan ''Outbound ICMP'' Num_nan (S_bool True),
        logged (Ts_ok 100) ''Outbound TCP'' (Num_ok (Finite 443)) (S_bool False)]
     = Inr [checked None ''Outbound ICMP'' None True,
        checked (Some 100) ''Outbound TCP'' (Some (Finite 443)) False]
   \<and> analyze_results 0 [logged Ts_nan ''Outbound ICMP'' Num_nan (S_bool True),
        logged (Ts_ok 100) ''Outbound TCP'' (Num_ok (Finite 443)) (S_bool False)]
     = analyze_results 60 [logged Ts_nan ''Outbound ICMP'' Num_nan (S_bool True),
        logged (Ts_ok 100) ''Outbound TCP'' (Num_ok (Finite 443)) (S_bool False)]
   \<and> latest_timestamp_str (analyze_results 0
       [logged Ts_nan ''Outbound ICMP'' Num_nan (S_bool True),
        logged (Ts_ok 100) ''Outbound TCP'' (Num_ok (Finite 443)) (S_bool False)])
     = Strftime 100"
proof -
  let ?df = "[logged Ts_nan ''Outbound ICMP'' Num_nan (S_bool True),
        logged (Ts_ok 100) ''Outbound TCP'' (Num_ok (Finite 443)) (S_bool False)]"
  let ?rows = "[checked None ''Outbound ICMP'' None True,
        checked (Some 100) ''Outbound TCP'' (Some (Finite 443)) False]"
  have c: "convert ?df = Inr ?rows"
    by (simp add: logged_def checked_def convert_def convert_row_def convert_success_def
        success_dtype_def)
  have p: "\<exists>r\<in>set ?rows. timestamp r \<noteq> None" by (simp add: checked_def)
  have q: "\<forall>r\<in>set ?rows. target_port r \<noteq> Some Pos_inf \<and> target_port r \<noteq> Some Neg_inf"
    by (simp add: checked_def)
  have m: "series_max (map timestamp ?rows) = Some 100"
    by (simp add: checked_def series_max_def)
  from converted_result_clock_free [OF c p q, of 0 60] obtain latest where
    1: "analyze_results 0 ?df = analyze_results 60 ?df"
    and l: "series_max (map timestamp ?rows) = Some latest"
    and 2: "latest_timestamp_str (analyze_results 0 ?df) = Strftime latest"
    by blast
  from l m have "latest = 100" by simp
  with 2 have 3: "latest_timestamp_str (analyze_results 0 ?df) = Strftime 100" by simp
  from c 1 3 show ?thesis by (intro conjI)
qed

text \<open>
  C9 as written fails: with one timestamp that parses and one text that does not, the
  returned timestamp is the wall clock, so two calls a minute apart differ, and it is
  not the latest timestamp of the log.
\<close>

theorem wall_clock_counterexample:
  "analyze_results 0
       [logged (Ts_ok 100) ''Outbound TCP'' (Num_ok (Finite 443)) (S_bool False),
        logged Ts_bad ''Outbound ICMP'' Num_nan (S_bool True)]
     \<noteq> analyze_results 60
       [logged (Ts_ok 100) ''Outbound TCP'' (Num_ok (Finite 443)) (S_bool False),
        logged Ts_bad ''Outbound ICMP'' Num_nan (S_bool True)]
   \<and> latest_timestamp_str (analyze_results 60
       [logged (Ts_ok 100) ''Outbound TCP'' (Num_ok (Finite 443)) (S_bool False),
        logged Ts_bad ''Outbound ICMP'' Num_nan (S_bool True)]) \<noteq> Strftime 100"
  by (simp add: logged_def analyze_results_def convert_def convert_row_def
      convert_success_def success_dtype_def no_decision_def)

lemma member_nonempty: "x \<in> set xs \<Longrightarrow> xs \<noteq> []"
  by auto

lemma map_raise_filter:
  "map_raise f xs = Inr ys \<Longrightarrow> \<exists>zs. map_raise f (filter P xs) = Inr zs"
proof (induction xs arbitrary: ys)
  case Nil
  show ?case by simp
next
  case (Cons x xs)
  from Cons.prems obtain y ys' where y: "f x = Inr y" and rest: "map_raise f xs = Inr ys'"
    by (auto split: sum.splits)
  from Cons.IH [OF rest] obtain zs where "map_raise f (filter P xs) = Inr zs" ..
  with y show ?case by simp
qed

lemma blank_iff_NaT:
  assumes "convert_row d r = Inr r'"
  shows "Timestamp r \<noteq> Ts_nan \<longleftrightarrow> timestamp r' \<noteq> None"
proof (cases "Timestamp r")
  case Ts_nan
  with convert_row_fields(1) [OF assms] have "timestamp r' = None" by simp
  with Ts_nan show ?thesis by simp
next
  case (Ts_ok t)
  with convert_row_fields(1) [OF assms] have "timestamp r' = Some t" by simp
  with Ts_ok show ?thesis by simp
next
  case Ts_bad
  with convert_row_fields(1) [OF assms] show ?thesis by simp
qed

lemma convert_rows_kept:
  "map_raise (convert_row d) df = Inr rows \<Longrightarrow>
     map_raise (convert_row d) (filter (\<lambda>r. Timestamp r \<noteq> Ts_nan) df)
       = Inr (filter (\<lambda>r. timestamp r \<noteq> None) rows)"
proof (induction df arbitrary: rows)
  case Nil
  then show ?case by simp
next
  case (Cons r df)
  from Cons.prems obtain r' rows' where r': "convert_row d r = Inr r'"
    and rest: "map_raise (convert_row d) df = Inr rows'" and rows: "rows = r' # rows'"
    by (auto split: sum.splits)
  from Cons.IH [OF rest] have kept: "map_raise (convert_row d) (filter (\<lambda>r. Timestamp r \<noteq> Ts_nan) df)
       = Inr (filter (\<lambda>r. timestamp r \<noteq> None) rows')" .
  show ?case
  proof (cases "Timestamp r = Ts_nan")
    case True
    with blank_iff_NaT [OF r'] have "timestamp r' = None" by simp
    with True kept rows show ?thesis by simp
  next
    case False
    with blank_iff_NaT [OF r'] have "timestamp r' \<noteq> None" by simp
    with False kept rows r' show ?thesis by simp
  qed
qed

lemma convert_kept:
  assumes "convert df = Inr rows"
    and "success_dtype (map Success (filter (\<lambda>r. Timestamp r \<noteq> Ts_nan) df))
           = success_dtype (map Success df)"
  shows "convert (filter (\<lambda>r. Timestamp r \<noteq> Ts_nan) df)
           = Inr (filter (\<lambda>r. timestamp r \<noteq> None) rows)"
proof -
  let ?kept = "filter (\<lambda>r. Timestamp r \<noteq> Ts_nan) df"
  from assms(1) obtain stamps where stamps: "map_raise to_datetime (map Timestamp df) = Inr stamps"
    and rows: "map_raise (convert_row (success_dtype (map Success df))) df = Inr rows"
    by (auto simp: convert_def split: sum.splits)
  have "map Timestamp ?kept = filter (\<lambda>c. c \<noteq> Ts_nan) (map Timestamp df)"
    by (simp add: filter_map comp_def)
  with map_raise_filter [OF stamps, of "\<lambda>c. c \<noteq> Ts_nan"]
  obtain kept_stamps where "map_raise to_datetime (map Timestamp ?kept) = Inr kept_stamps"
    by auto
  with convert_rows_kept [OF rows] assms(2) show ?thesis
    by (simp add: convert_def)
qed

lemma dropna_filter:
  "dropna (map timestamp (filter (\<lambda>r. timestamp r \<noteq> None) rows)) = dropna (map timestamp rows)"
proof (induction rows)
  case Nil
  show ?case by simp
next
  case (Cons r rows)
  then show ?case by (cases "timestamp r") simp_all
qed

lemma analyze_latest_dropna:
  "analyze_latest now (filter (\<lambda>r. timestamp r \<noteq> None) rows) = analyze_latest now rows"
proof (cases "series_max (map timestamp rows)")
  case None
  then have "series_max (map timestamp (filter (\<lambda>r. timestamp r \<noteq> None) rows)) = None"
    unfolding series_max_def dropna_filter .
  then have "analyze_latest now (filter (\<lambda>r. timestamp r \<noteq> None) rows)
      = Inr (no_decision All_timestamps_invalid now)"
    by (rule analyze_latest_None)
  also have "\<dots> = analyze_latest now rows"
    using None by (rule analyze_latest_None [symmetric])
  finally show ?thesis .
next
  case (Some latest)
  let ?kept = "filter (\<lambda>r. timestamp r \<noteq> None) rows"
  from Some have m: "series_max (map timestamp ?kept) = Some latest"
    unfolding series_max_def dropna_filter .
  have same: "all_failures (latest_results latest rows)
      = all_failures (latest_results latest ?kept)"
    by (auto simp: latest_results_def all_failures_def intro: filter_cong)
  show ?thesis
    by (subst analyze_latest_cases [OF m same], rule analyze_latest_cases [OF Some refl, symmetric])
qed

text \<open>
  C5, as the code has it. A timestamp text that does not parse is fatal to the whole
  evaluation: line 119 raises and lines 122 to 124 return no alert at the wall-clock
  time. A row whose timestamp is blank is left out: when the column conversions go
  through, some timestamp parses, and the Success column has the same dtype without
  the blank-timestamp rows as with them, the function returns what it returns on the
  remaining rows alone.
\<close>

theorem blank_timestamps_discarded:
  "(Ts_bad \<in> Timestamp ` set df \<longrightarrow>
       send_alert (analyze_results now df) = False
       \<and> latest_timestamp_str (analyze_results now df) = Strftime now
       \<and> printed (analyze_results now df) = Conversion_error)
   \<and> (convert df = Inr rows
       \<and> (\<exists>r\<in>set df. \<exists>t. Timestamp r = Ts_ok t)
       \<and> success_dtype (map Success (filter (\<lambda>r. Timestamp r \<noteq> Ts_nan) df))
           = success_dtype (map Success df) \<longrightarrow>
       analyze_results now df
         = analyze_results now (filter (\<lambda>r. Timestamp r \<noteq> Ts_nan) df))"
proof (intro conjI impI)
  assume bad: "Ts_bad \<in> Timestamp ` set df"
  then have "convert df = Inl ValueError" by (rule convert_bad_timestamp)
  moreover from bad have "df \<noteq> []" by auto
  ultimately have "analyze_results now df = no_decision Conversion_error now"
    by (simp add: analyze_results_def)
  then show "send_alert (analyze_results now df) = False"
    and "latest_timestamp_str (analyze_results now df) = Strftime now"
    and "printed (analyze_results now df) = Conversion_error"
    by (simp_all add: no_decision_def)
next
  let ?kept = "filter (\<lambda>r. Timestamp r \<noteq> Ts_nan) df"
  assume h: "convert df = Inr rows
       \<and> (\<exists>r\<in>set df. \<exists>t. Timestamp r = Ts_ok t)
       \<and> success_dtype (map Success ?kept) = success_dtype (map Success df)"
  then have conv: "convert df = Inr rows"
    and dtype: "success_dtype (map Success ?kept) = success_dtype (map Success df)"
    by simp_all
  from h obtain r t where r: "r \<in> set df" "Timestamp r = Ts_ok t" by blast
  then have ne: "df \<noteq> []" by auto
  from r have "r \<in> set ?kept" by simp
  then have ne': "?kept \<noteq> []" by (rule member_nonempty)
  have conv': "convert ?kept = Inr (filter (\<lambda>r. timestamp r \<noteq> None) rows)"
    using conv dtype by (rule convert_kept)
  have "analyze_results now ?kept =
       (case analyze_latest now (filter (\<lambda>r. timestamp r \<noteq> None) rows) of
          Inl e \<Rightarrow> no_decision Analysis_error now
        | Inr result \<Rightarrow> result)"
    using conv' ne' by (rule analyze_results_converted)
  also have "\<dots> = (case analyze_latest now rows of
          Inl e \<Rightarrow> no_decision Analysis_error now
        | Inr result \<Rightarrow> result)"
    by (simp only: analyze_latest_dropna)
  also have "\<dots> = analyze_results now df"
    using conv ne by (rule analyze_results_converted [symmetric])
  finally show "analyze_results now df = analyze_results now ?kept" by (rule sym)
qed

theorem blank_timestamps_discarded_witness:
  "Ts_bad \<in> Timestamp ` set [logged Ts_bad ''Outbound ICMP'' Num_nan (S_bool True),
        logged (Ts_ok 100) ''Outbound TCP'' (Num_ok (Finite 443)) (S_bool False)]
   \<and> printed (analyze_results 7 [logged Ts_bad ''Outbound ICMP'' Num_nan (S_bool True),
        logged (Ts_ok 100) ''Outbound TCP'' (Num_ok (Finite 443)) (S_bool False)])
     = Conversion_error
   \<and> convert [logged Ts_nan ''Outbound ICMP'' Num_nan (S_bool True),
        logged (Ts_ok 100) ''Outbound TCP'' (Num_ok (Finite 443)) (S_bool False)]
     = Inr [checked None ''Outbound ICMP'' None True,
        checked (Some 100) ''Outbound TCP'' (Some (Finite 443)) False]
   \<and> analyze_results 7 [logged Ts_nan ''Outbound ICMP'' Num_nan (S_bool True),
        logged (Ts_ok 100) ''Outbound TCP'' (Num_ok (Finite 443)) (S_bool False)]
     = analyze_results 7
         [logged (Ts_ok 100) ''Outbound TCP'' (Num_ok (Finite 443)) (S_bool False)]"
proof -
  let ?bad = "[logged Ts_bad ''Outbound ICMP'' Num_nan (S_bool True),
        logged (Ts_ok 100) ''Outbound TCP'' (Num_ok (Finite 443)) (S_bool False)]"
  let ?df = "[logged Ts_nan ''Outbound ICMP'' Num_nan (S_bool True),
        logged (Ts_ok 100) ''Outbound TCP'' (Num_ok (Finite 443)) (S_bool False)]"
  let ?rows = "[checked None ''Outbound ICMP'' None True,
        checked (Some 100) ''Outbound TCP'' (Some (Finite 443)) False]"
  have b: "Ts_bad \<in> Timestamp ` set ?bad" by (simp add: logged_def)
  have c: "convert ?df = Inr ?rows"
    by (simp add: logged_def checked_def convert_def convert_row_def convert_success_def
        success_dtype_def)
  have p: "\<exists>r\<in>set ?df. \<exists>t. Timestamp r = Ts_ok t" by (simp add: logged_def)
  have k: "filter (\<lambda>r. Timestamp r \<noteq> Ts_nan) ?df
      = [logged (Ts_ok 100) ''Outbound TCP'' (Num_ok (Finite 443)) (S_bool False)]"
    by (simp add: logged_def)
  have d: "success_dtype (map Success (filter (\<lambda>r. Timestamp r \<noteq> Ts_nan) ?df))
      = success_dtype (map Success ?df)"
    unfolding k by (simp add: logged_def success_dtype_def)
  from blank_timestamps_discarded [where df = ?bad and now = 7] b
  have 1: "printed (analyze_results 7 ?bad) = Conversion_error" by blast
  from blank_timestamps_discarded [where df = ?df and rows = ?rows and now = 7] c p d
  have "analyze_results 7 ?df = analyze_results 7 (filter (\<lambda>r. Timestamp r \<noteq> Ts_nan) ?df)"
    by blast
  then have 2: "analyze_results 7 ?df = analyze_results 7
      [logged (Ts_ok 100) ''Outbound TCP'' (Num_ok (Finite 443)) (S_bool False)]"
    unfolding k .
  from b 1 c 2 show ?thesis by (intro conjI)
qed

text \<open>
  C5 as written fails: one timestamp text that does not parse, next to a later failed
  outbound check, and the function does not alert, although it alerts on the
  remaining row alone.
\<close>

theorem unparseable_timestamp_counterexample:
  "send_alert (analyze_results 7
       [logged (Ts_ok 100) ''Outbound TCP'' (Num_ok (Finite 443)) (S_bool False)])
   \<and> \<not> send_alert (analyze_results 7
       [logged Ts_bad ''Outbound ICMP'' Num_nan (S_bool True),
        logged (Ts_ok 100) ''Outbound TCP'' (Num_ok (Finite 443)) (S_bool False)])
   \<and> latest_timestamp_str (analyze_results 7
       [logged Ts_bad ''Outbound ICMP'' Num_nan (S_bool True),
        logged (Ts_ok 100) ''Outbound TCP'' (Num_ok (Finite 443)) (S_bool False)]) = Strftime 7"
  by (simp add: logged_def analyze_results_def convert_def convert_row_def
      convert_success_def success_dtype_def analyze_latest_def series_max_def
      print_details_def critical_mask_def
      latest_results_def all_failures_def rdp_mask_def outbound_mask_def Let_def
      no_decision_def)

lemma series_max_constant:
  assumes "col \<noteq> []" and "\<forall>x\<in>set col. x = Some t"
  shows "series_max col = Some t"
proof -
  from assms(1) obtain x xs where col: "col = x # xs" by (cases col) simp_all
  then have "x \<in> set col" by simp
  with assms(2) have "x = Some t" by (rule bspec)
  with \<open>x \<in> set col\<close> have "Some t \<in> set col" by simp
  then have "\<exists>t'. series_max col = Some t'" by (rule series_max_exists)
  then obtain t' where t': "series_max col = Some t'" ..
  then have "Some t' \<in> set col" by (rule series_max_Some(1))
  with assms(2) have "Some t' = Some t" by (rule bspec)
  with t' show ?thesis by simp
qed

text \<open>
  On the converted frame the decision reads the rows at the latest timestamp only:
  the equality filter of line 140 does exclude every other row.
\<close>

lemma analyze_latest_batch_only:
  assumes "series_max (map timestamp rows) = Some latest"
  shows "analyze_latest now (latest_results latest rows) = analyze_latest now rows"
proof -
  let ?batch = "latest_results latest rows"
  have "?batch \<noteq> []" using assms by (rule latest_results_nonempty)
  then have m: "series_max (map timestamp ?batch) = Some latest"
    by (intro series_max_constant) (auto simp: latest_results_def)
  have same: "all_failures (latest_results latest rows)
      = all_failures (latest_results latest ?batch)"
    by (simp add: latest_results_def)
  show ?thesis
    by (subst analyze_latest_cases [OF m same], rule analyze_latest_cases [OF assms refl, symmetric])
qed

end
